theory Spec2Isabelle
  imports Complex_Main
begin

section \<open>Common vocabulary of the views\<close>

text \<open>
  Every view maps a request to an HTTP response and touches the relational store and
  the cache. A view is modelled as a function from its inputs and the state of the
  tables it uses to a response and the new state. Time is a number of seconds; each
  view reads the clock once (\<open>now\<close>).

  The serializer classes and the model classes are imported by the views from modules
  that are not part of the source at hand. The outcome of a serializer's validation is
  therefore an input of each view: either the field errors or the validated data. The
  tables are lists of rows with an auto-incremented primary key; no uniqueness
  constraint other than the primary key is visible, so a table accepts every row.
\<close>

type_synonym errors = "(string \<times> string list) list"

datatype 'a validation = Invalid errors | Valid 'a

text \<open>What \<open>Model.objects.get(...)\<close> does with the rows that match its filter.\<close>

datatype 'a lookup = DoesNotExist | MultipleObjectsReturned | Found 'a

fun objects_get :: "'a list \<Rightarrow> 'a lookup" where
  "objects_get [] = DoesNotExist"
| "objects_get [r] = Found r"
| "objects_get (r # r' # rs) = MultipleObjectsReturned"

text \<open>The primary key the database gives to a new row: larger than every key in use.\<close>

definition fresh_id :: "int list \<Rightarrow> int" where
  "fresh_id ids = 1 + fold max ids 0"

text \<open>Opaque JSON payloads (report data, visualizations, analyses, parameters).\<close>

datatype json = JNull | JBool bool | JInt int | JStr string
  | JList "json list" | JDict "(string \<times> json) list"

text \<open>Python's \<open>str\<close> of an integer, as the f-strings of the cache keys use it.\<close>

fun str_nat :: "nat \<Rightarrow> string" where
  "str_nat n = (if n < 10 then [''0123456789'' ! n]
                else str_nat (n div 10) @ [''0123456789'' ! (n mod 10)])"

definition str_int :: "int \<Rightarrow> string" where
  "str_int i = (if i < 0 then CHR ''-'' # str_nat (nat (- i)) else str_nat (nat i))"

declare str_nat.simps [simp del]

section \<open>recommendations/views.py\<close>

subsection \<open>Data\<close>

text \<open>
  Modelled from the spec: the recommendation service (\<open>ai_models.services\<close>) is not
  part of the source. It returns an ordered list of \<open>{product_id, score, algorithm}\<close>;
  this is one element of that list, whose three keys the views read.
\<close>

record recommendation =
  product_id :: int
  score :: real
  algorithm :: string

text \<open>The validated data of \<open>RecommendationRequestSerializer\<close>; every key is optional.\<close>

record recommendation_request =
  limit :: "int option"
  category_id :: "int option"
  exclude_products :: "int list option"
  session_id :: "string option"

text \<open>The validated data of \<open>RecommendationFeedbackSerializer\<close>.\<close>

record recommendation_feedback =
  fb_session_id :: int
  fb_product_id :: int
  fb_action :: string
  fb_timestamp :: "int option"

record recommendation_session =
  rs_id :: int
  rs_user :: "int option"
  rs_session_id :: "string option"
  rs_recommendation_type :: string

text \<open>
  Modelled from the spec: the model classes are not part of the source. A row of
  \<open>RecommendationResult\<close> has the columns the views write: the session reference, the
  product, score, position and algorithm set at creation, and the interaction flags
  and click timestamp, which start unset and change only through feedback tracking.
\<close>

record recommendation_result =
  rr_id :: int
  rr_session :: int
  rr_product_id :: int
  rr_score :: real
  rr_position :: nat
  rr_algorithm_used :: string
  was_clicked :: bool
  click_timestamp :: "int option"
  was_added_to_cart :: bool
  was_purchased :: bool

record response_data =
  rd_session_id :: int
  rd_recommendations :: "recommendation list"
  rd_total_count :: nat
  rd_algorithm_type :: string
  rd_algorithm_description :: string

datatype rec_body =
    FieldErrors errors
  | ErrorBody string
  | RecommendationBody response_data
  | StatusBody string

type_synonym rec_response = "rec_body \<times> nat"

text \<open>The cache: key, value, and the time at which the entry expires.\<close>

type_synonym cache = "(string \<times> response_data \<times> int) list"

record rec_state =
  sessions :: "recommendation_session list"
  results :: "recommendation_result list"
  cache_entries :: cache

text \<open>\<open>cache.get(key)\<close> at time \<open>now\<close>: an expired entry is a miss.\<close>

definition cache_get :: "cache \<Rightarrow> string \<Rightarrow> int \<Rightarrow> response_data option" where
  "cache_get c key now =
     (case map_of c key of
        None \<Rightarrow> None
      | Some (v, expires) \<Rightarrow> if now < expires then Some v else None)"

text \<open>\<open>cache.set(key, value, timeout)\<close> at time \<open>now\<close>.\<close>

definition cache_set :: "cache \<Rightarrow> string \<Rightarrow> response_data \<Rightarrow> int \<Rightarrow> int \<Rightarrow> cache" where
  "cache_set c key v timeout now = (key, v, now + timeout) # filter (\<lambda>e. fst e \<noteq> key) c"

text \<open>
  A call of the recommendation service raises (\<open>Inl\<close>) or returns its list (\<open>Inr\<close>).
  The service is an argument of the views, so the theorems hold for every service.
\<close>

type_synonym general_service =
  "int \<Rightarrow> int option \<Rightarrow> int list \<Rightarrow> string + recommendation list"

type_synonym personalized_service =
  "int \<Rightarrow> int \<Rightarrow> int option \<Rightarrow> int list \<Rightarrow> string + recommendation list"

subsection \<open>Creating the session and its results\<close>

definition get_limit :: "recommendation_request \<Rightarrow> int" where
  "get_limit vd = (case limit vd of None \<Rightarrow> 10 | Some l \<Rightarrow> l)"

definition get_exclude_products :: "recommendation_request \<Rightarrow> int list" where
  "get_exclude_products vd = (case exclude_products vd of None \<Rightarrow> [] | Some xs \<Rightarrow> xs)"

definition session_create ::
  "int option \<Rightarrow> string option \<Rightarrow> string \<Rightarrow> recommendation_session list
     \<Rightarrow> recommendation_session" where
  "session_create user sid rtype rows =
     \<lparr>rs_id = fresh_id (map rs_id rows), rs_user = user, rs_session_id = sid,
      rs_recommendation_type = rtype\<rparr>"

definition result_create ::
  "int \<Rightarrow> recommendation \<Rightarrow> nat \<Rightarrow> recommendation_result list \<Rightarrow> recommendation_result" where
  "result_create session rec position rows =
     \<lparr>rr_id = fresh_id (map rr_id rows), rr_session = session,
      rr_product_id = product_id rec, rr_score = score rec, rr_position = position,
      rr_algorithm_used = algorithm rec, was_clicked = False, click_timestamp = None,
      was_added_to_cart = False, was_purchased = False\<rparr>"

text \<open>
  The loop \<open>for idx, rec in enumerate(recommendations)\<close>: one row per element, in
  order, with \<open>position = idx + 1\<close>.
\<close>

fun store_results ::
  "int \<Rightarrow> nat \<Rightarrow> recommendation list \<Rightarrow> recommendation_result list
     \<Rightarrow> recommendation_result list" where
  "store_results session idx [] rows = rows"
| "store_results session idx (rec # recs) rows =
     store_results session (idx + 1) recs (rows @ [result_create session rec (idx + 1) rows])"

definition make_response_data ::
  "int \<Rightarrow> recommendation list \<Rightarrow> string \<Rightarrow> string \<Rightarrow> response_data" where
  "make_response_data sid recommendations rtype description =
     \<lparr>rd_session_id = sid, rd_recommendations = recommendations,
      rd_total_count = length recommendations, rd_algorithm_type = rtype,
      rd_algorithm_description = description\<rparr>"

text \<open>The part of both views after the service has returned its list.\<close>

definition produce ::
  "int option \<Rightarrow> recommendation_request \<Rightarrow> string \<Rightarrow> string \<Rightarrow> string \<Rightarrow> int \<Rightarrow> int
     \<Rightarrow> recommendation list \<Rightarrow> rec_state \<Rightarrow> rec_response \<times> rec_state" where
  "produce user vd rtype description cache_key timeout now recommendations s =
     (let session = session_create user (session_id vd) rtype (sessions s);
          rows = store_results (rs_id session) 0 recommendations (results s);
          response_data = make_response_data (rs_id session) recommendations rtype description
      in ((RecommendationBody response_data, 200),
          \<lparr>sessions = sessions s @ [session], results = rows,
           cache_entries = cache_set (cache_entries s) cache_key response_data timeout now\<rparr>))"

subsection \<open>general_recommendations\<close>

text \<open>
  The test \<open>if cached_result\<close> is a test for a hit: every value the views store is a
  dictionary with four keys, which is never falsy. An exception of the service is
  caught by the handler of the view, before any row is written.
\<close>

definition general_cache_key :: "recommendation_request \<Rightarrow> string" where
  "general_cache_key vd = ''general_recommendations_'' @ str_int (get_limit vd)"

definition general_recommendations ::
  "general_service \<Rightarrow> int option \<Rightarrow> recommendation_request validation \<Rightarrow> int
     \<Rightarrow> rec_state \<Rightarrow> rec_response \<times> rec_state" where
  "general_recommendations service user serializer now s =
     (case serializer of
        Invalid errs \<Rightarrow> ((FieldErrors errs, 400), s)
      | Valid vd \<Rightarrow>
          (case cache_get (cache_entries s) (general_cache_key vd) now of
             Some cached_result \<Rightarrow> ((RecommendationBody cached_result, 200), s)
           | None \<Rightarrow>
               (case service (get_limit vd) (category_id vd) (get_exclude_products vd) of
                  Inl e \<Rightarrow> ((ErrorBody ''Failed to generate recommendations'', 500), s)
                | Inr recommendations \<Rightarrow>
                    produce user vd ''general'' ''Trending and popular products''
                      (general_cache_key vd) 900 now recommendations s)))"

subsection \<open>personalized_recommendations\<close>

definition personalized_cache_key :: "int \<Rightarrow> recommendation_request \<Rightarrow> string" where
  "personalized_cache_key uid vd =
     ''personalized_recommendations_'' @ str_int uid @ ''_'' @ str_int (get_limit vd)"

definition personalized_recommendations ::
  "personalized_service \<Rightarrow> int \<Rightarrow> recommendation_request validation \<Rightarrow> int
     \<Rightarrow> rec_state \<Rightarrow> rec_response \<times> rec_state" where
  "personalized_recommendations service uid serializer now s =
     (case serializer of
        Invalid errs \<Rightarrow> ((FieldErrors errs, 400), s)
      | Valid vd \<Rightarrow>
          (case cache_get (cache_entries s) (personalized_cache_key uid vd) now of
             Some cached_result \<Rightarrow> ((RecommendationBody cached_result, 200), s)
           | None \<Rightarrow>
               (case service uid (get_limit vd) (category_id vd) (get_exclude_products vd) of
                  Inl e \<Rightarrow>
                    ((ErrorBody ''Failed to generate personalized recommendations'', 500), s)
                | Inr recommendations \<Rightarrow>
                    produce (Some uid) vd ''personalized''
                      ''Based on your preferences and behavior''
                      (personalized_cache_key uid vd) 300 now recommendations s)))"

subsection \<open>track_recommendation_interaction\<close>

definition results_get ::
  "recommendation_result list \<Rightarrow> int \<Rightarrow> int \<Rightarrow> recommendation_result lookup" where
  "results_get rows sid pid =
     objects_get (filter (\<lambda>r. rr_session r = sid \<and> rr_product_id r = pid) rows)"

text \<open>\<open>result.save()\<close>: the stored row with the primary key of \<open>result\<close> becomes \<open>result\<close>.\<close>

definition result_save ::
  "recommendation_result \<Rightarrow> recommendation_result list \<Rightarrow> recommendation_result list" where
  "result_save result rows = map (\<lambda>r. if rr_id r = rr_id result then result else r) rows"

definition apply_action ::
  "string \<Rightarrow> int \<Rightarrow> recommendation_result \<Rightarrow> recommendation_result" where
  "apply_action action timestamp result =
     (if action = ''click'' then result\<lparr>was_clicked := True, click_timestamp := Some timestamp\<rparr>
      else if action = ''add_to_cart'' then result\<lparr>was_added_to_cart := True\<rparr>
      else if action = ''purchase'' then result\<lparr>was_purchased := True\<rparr>
      else result)"

definition track_recommendation_interaction ::
  "recommendation_feedback validation \<Rightarrow> int \<Rightarrow> rec_state \<Rightarrow> rec_response \<times> rec_state" where
  "track_recommendation_interaction serializer now s =
     (case serializer of
        Invalid errs \<Rightarrow> ((FieldErrors errs, 400), s)
      | Valid vd \<Rightarrow>
          (case results_get (results s) (fb_session_id vd) (fb_product_id vd) of
             DoesNotExist \<Rightarrow> ((ErrorBody ''Recommendation not found'', 404), s)
           | MultipleObjectsReturned \<Rightarrow> ((ErrorBody ''Failed to track interaction'', 500), s)
           | Found result \<Rightarrow>
               (let action = fb_action vd;
                    timestamp = (case fb_timestamp vd of None \<Rightarrow> now | Some t \<Rightarrow> t);
                    result' = apply_action action timestamp result
                in ((StatusBody ''success'', 200),
                    s\<lparr>results := result_save result' (results s)\<rparr>))))"

section \<open>reports/views.py\<close>

subsection \<open>Data\<close>

text \<open>The validated data of \<open>ReportGenerationRequestSerializer\<close>; dates are day numbers.\<close>

record report_request =
  rq_report_type :: string
  rq_store_id :: "int option"
  rq_date_from :: int
  rq_date_to :: int
  rq_parameters :: "json option"

text \<open>
  Modelled from the spec: the report service (\<open>reports.services\<close>) is not part of the
  source. It returns \<open>{raw_data, ai_summary, visualizations}\<close>; the view reads the first
  two keys directly and \<open>visualizations\<close> with a default.
\<close>

record report_data =
  raw_data :: json
  ai_summary :: string
  visualizations :: "json option"

text \<open>
  Modelled from the spec: the model class is not part of the source. A row of
  \<open>GeneratedReport\<close> has the columns the views read and write; those the view does not
  pass to \<open>create\<close> (payload, summary, visualizations, completion and access times)
  start unset (\<open>None\<close>), the download counter at zero.
\<close>

record generated_report =
  gr_id :: int
  gr_report_type :: string
  gr_generated_by :: int
  gr_store_id :: "int option"
  gr_date_from :: int
  gr_date_to :: int
  gr_parameters :: json
  gr_status :: string
  gr_raw_data :: "json option"
  gr_ai_summary_text :: "string option"
  gr_visualizations :: "json option"
  gr_generated_at :: int
  gr_completed_at :: "int option"
  gr_download_count :: nat
  gr_last_accessed :: "int option"

record report_schedule =
  sch_id :: int
  sch_user :: int
  sch_frequency :: string
  sch_next_run :: int

record report_state =
  reports :: "generated_report list"
  schedules :: "report_schedule list"

text \<open>
  The body of a downloaded file. The rendering of a report type's display name, of a
  date and of a payload as text is left symbolic.
\<close>

datatype cell = Text string | ReportTypeDisplay string | Strftime int

datatype file_content = StrOf "json option" | CsvRows "cell list list"

datatype report_body =
    ReportError string
  | NotFoundDetail string
  | ReportBody generated_report
  | FileBody file_content string string

type_synonym report_response = "report_body \<times> nat"

type_synonym report_service =
  "string \<Rightarrow> int \<Rightarrow> int option \<Rightarrow> int \<Rightarrow> int \<Rightarrow> json \<Rightarrow> string + report_data"

subsection \<open>GenerateReportView.create\<close>

definition report_objects_create ::
  "report_request \<Rightarrow> int \<Rightarrow> int \<Rightarrow> generated_report list \<Rightarrow> generated_report" where
  "report_objects_create vd user now rows =
     \<lparr>gr_id = fresh_id (map gr_id rows),
      gr_report_type = rq_report_type vd,
      gr_generated_by = user,
      gr_store_id = rq_store_id vd,
      gr_date_from = rq_date_from vd,
      gr_date_to = rq_date_to vd,
      gr_parameters = (case rq_parameters vd of None \<Rightarrow> JDict [] | Some p \<Rightarrow> p),
      gr_status = ''pending'',
      gr_raw_data = None,
      gr_ai_summary_text = None,
      gr_visualizations = None,
      gr_generated_at = now,
      gr_completed_at = None,
      gr_download_count = 0,
      gr_last_accessed = None\<rparr>"

text \<open>\<open>report.save()\<close>: every column of the stored row with this key is written.\<close>

definition report_save :: "generated_report \<Rightarrow> generated_report list \<Rightarrow> generated_report list" where
  "report_save report rows = map (\<lambda>r. if gr_id r = gr_id report then report else r) rows"

text \<open>
  \<open>is_valid(raise_exception=True)\<close> raises inside the outer \<open>try\<close>, whose handler
  answers every exception with the generic 500 body.
\<close>

definition GenerateReportView_create ::
  "report_service \<Rightarrow> int \<Rightarrow> report_request validation \<Rightarrow> int \<Rightarrow> report_state
     \<Rightarrow> report_response \<times> report_state" where
  "GenerateReportView_create service user serializer now s =
     (case serializer of
        Invalid errs \<Rightarrow> ((ReportError ''Failed to generate report'', 500), s)
      | Valid vd \<Rightarrow>
          (let report = report_objects_create vd user now (reports s);
               rows = reports s @ [report]
           in case service (gr_report_type report) user (gr_store_id report)
                     (gr_date_from report) (gr_date_to report) (gr_parameters report) of
                Inr rd \<Rightarrow>
                  (let report' = report
                         \<lparr>gr_raw_data := Some (raw_data rd),
                          gr_ai_summary_text := Some (ai_summary rd),
                          gr_visualizations :=
                            Some (case visualizations rd of None \<Rightarrow> JDict [] | Some v \<Rightarrow> v),
                          gr_status := ''completed'',
                          gr_completed_at := Some now\<rparr>
                   in ((ReportBody report', 201), s\<lparr>reports := report_save report' rows\<rparr>))
              | Inl e \<Rightarrow>
                  (let report' = report\<lparr>gr_status := ''failed''\<rparr>
                   in ((ReportError ''Report generation failed'', 500),
                       s\<lparr>reports := report_save report' rows\<rparr>))))"

subsection \<open>download_report\<close>






subsection \<open>ReportScheduleView.perform_create\<close>

text \<open>\<open>timedelta(days=d, weeks=w)\<close>, in seconds.\<close>

definition timedelta :: "int \<Rightarrow> int \<Rightarrow> int" where
  "timedelta days weeks = (days + 7 * weeks) * 86400"

definition next_run_of :: "string \<Rightarrow> int \<Rightarrow> int" where
  "next_run_of frequency now =
     (if frequency = ''daily'' then now + timedelta 1 0
      else if frequency = ''weekly'' then now + timedelta 0 1
      else if frequency = ''monthly'' then now + timedelta 30 0
      else if frequency = ''quarterly'' then now + timedelta 90 0
      else now + timedelta 1 0)"

definition perform_create :: "int \<Rightarrow> string \<Rightarrow> int \<Rightarrow> report_state \<Rightarrow> report_state" where
  "perform_create user frequency now s =
     s\<lparr>schedules := schedules s @
          [\<lparr>sch_id = fresh_id (map sch_id (schedules s)), sch_user = user,
            sch_frequency = frequency, sch_next_run = next_run_of frequency now\<rparr>]\<rparr>"

section \<open>comparisons/views.py\<close>

text \<open>The columns of \<open>Product\<close> that the views filter on.\<close>

record product =
  p_id :: int
  p_slug :: string
  p_is_active :: bool

text \<open>The validated data of \<open>ProductComparisonRequestSerializer\<close>.\<close>

record comparison_request =
  cq_product_ids :: "int list"
  cq_criteria :: "string list option"
  cq_include_ai_recommendation :: "bool option"

text \<open>
  Modelled from the spec: the comparison service (\<open>ai_models.services\<close>) is not part of
  the source. It takes the products and returns \<open>{criteria, analysis}\<close>.
\<close>

record comparison_result =
  criteria :: json
  analysis :: json

text \<open>A row of \<open>ProductComparison\<close> with the products linked to it.\<close>

record product_comparison =
  pc_id :: int
  pc_user :: "int option"
  pc_comparison_criteria :: json
  pc_ai_analysis :: json
  pc_products :: "int list"

record comparison_state =
  cs_products :: "product list"
  comparisons :: "product_comparison list"

datatype comparison_body =
    ComparisonFieldErrors errors
  | ComparisonError string
  | ComparisonBody product_comparison

type_synonym comparison_service =
  "product list \<Rightarrow> string list \<Rightarrow> bool \<Rightarrow> string + comparison_result"

definition compare_products ::
  "comparison_service \<Rightarrow> int option \<Rightarrow> comparison_request validation \<Rightarrow> comparison_state
     \<Rightarrow> (comparison_body \<times> nat) \<times> comparison_state" where
  "compare_products service user serializer s =
     (case serializer of
        Invalid errs \<Rightarrow> ((ComparisonFieldErrors errs, 400), s)
      | Valid vd \<Rightarrow>
          (let product_ids = cq_product_ids vd;
               crit = (case cq_criteria vd of None \<Rightarrow> [] | Some c \<Rightarrow> c);
               include_ai_recommendation =
                 (case cq_include_ai_recommendation vd of None \<Rightarrow> True | Some b \<Rightarrow> b);
               products = filter (\<lambda>p. p_id p \<in> set product_ids \<and> p_is_active p) (cs_products s)
           in if length products \<noteq> length product_ids
              then ((ComparisonError ''One or more products not found or inactive'', 404), s)
              else (case service products crit include_ai_recommendation of
                      Inl e \<Rightarrow> ((ComparisonError ''Failed to compare products'', 500), s)
                    | Inr comparison_result \<Rightarrow>
                        (let comparison =
                               \<lparr>pc_id = fresh_id (map pc_id (comparisons s)),
                                pc_user = user,
                                pc_comparison_criteria = criteria comparison_result,
                                pc_ai_analysis = analysis comparison_result,
                                pc_products = map p_id products\<rparr>
                         in ((ComparisonBody comparison, 201),
                             s\<lparr>comparisons := comparisons s @ [comparison]\<rparr>)))))"

section \<open>products/views.py\<close>

record product_like =
  pl_id :: int
  pl_user :: int
  pl_product :: int

record user_behavior_log =
  bl_id :: int
  bl_user :: int
  bl_product :: int
  bl_action_type :: string
  bl_metadata :: json

record like_state =
  ls_products :: "product list"
  likes :: "product_like list"
  behavior_logs :: "user_behavior_log list"

datatype like_body = LikeError string | LikeBody bool string

definition log_behavior :: "int \<Rightarrow> int \<Rightarrow> bool \<Rightarrow> user_behavior_log list \<Rightarrow> user_behavior_log list" where
  "log_behavior user pid liked logs =
     logs @ [\<lparr>bl_id = fresh_id (map bl_id logs), bl_user = user, bl_product = pid,
              bl_action_type = (if liked then ''like'' else ''dislike''),
              bl_metadata = JDict [(''source'', JStr ''product_detail'')]\<rparr>]"

definition like_response :: "bool \<Rightarrow> like_body \<times> nat" where
  "like_response liked =
     (LikeBody liked (if liked then ''Product liked'' else ''Product unliked''), 200)"

text \<open>
  \<open>get_object_or_404\<close> and \<open>get_or_create\<close> run inside the \<open>try\<close>: \<open>Http404\<close> and
  \<open>MultipleObjectsReturned\<close> end in the generic 500 body. \<open>like.delete()\<close> deletes by key.
\<close>

definition toggle_product_like ::
  "int \<Rightarrow> string \<Rightarrow> like_state \<Rightarrow> (like_body \<times> nat) \<times> like_state" where
  "toggle_product_like user slug s =
     (case objects_get (filter (\<lambda>p. p_slug p = slug \<and> p_is_active p) (ls_products s)) of
        DoesNotExist \<Rightarrow> ((LikeError ''Failed to toggle like'', 500), s)
      | MultipleObjectsReturned \<Rightarrow> ((LikeError ''Failed to toggle like'', 500), s)
      | Found product \<Rightarrow>
          (case objects_get (filter (\<lambda>l. pl_user l = user \<and> pl_product l = p_id product)
                               (likes s)) of
             MultipleObjectsReturned \<Rightarrow> ((LikeError ''Failed to toggle like'', 500), s)
           | Found like \<Rightarrow>
               (like_response False,
                s\<lparr>likes := filter (\<lambda>l. pl_id l \<noteq> pl_id like) (likes s),
                  behavior_logs := log_behavior user (p_id product) False (behavior_logs s)\<rparr>)
           | DoesNotExist \<Rightarrow>
               (like_response True,
                s\<lparr>likes := likes s @ [\<lparr>pl_id = fresh_id (map pl_id (likes s)),
                                        pl_user = user, pl_product = p_id product\<rparr>],
                  behavior_logs := log_behavior user (p_id product) True (behavior_logs s)\<rparr>)))"

text \<open>The like relation: the (user, product) pairs that have a like row.\<close>

definition like_relation :: "like_state \<Rightarrow> (int \<times> int) set" where
  "like_relation s = set (map (\<lambda>l. (pl_user l, pl_product l)) (likes s))"

section \<open>Well-formed recommendation tables\<close>



section \<open>Example data\<close>






definition demo_recommendation :: recommendation where
  "demo_recommendation = \<lparr>product_id = 7, score = 1, algorithm = ''trending''\<rparr>"

definition demo_request :: "int option \<Rightarrow> recommendation_request" where
  "demo_request category =
     \<lparr>limit = Some 5, category_id = category, exclude_products = None, session_id = None\<rparr>"

definition empty_rec_state :: rec_state where
  "empty_rec_state = \<lparr>sessions = [], results = [], cache_entries = []\<rparr>"

definition demo_general_service :: general_service where
  "demo_general_service l c e = Inr [demo_recommendation]"

definition demo_personalized_service :: personalized_service where
  "demo_personalized_service u l c e = Inr [demo_recommendation]"



definition demo_products :: "product list" where
  "demo_products =
     [\<lparr>p_id = 1, p_slug = ''phone'', p_is_active = True\<rparr>,
      \<lparr>p_id = 2, p_slug = ''laptop'', p_is_active = True\<rparr>,
      \<lparr>p_id = 3, p_slug = ''radio'', p_is_active = False\<rparr>]"

definition demo_comparison_state :: comparison_state where
  "demo_comparison_state = \<lparr>cs_products = demo_products, comparisons = []\<rparr>"

definition demo_comparison_request :: "int list \<Rightarrow> comparison_request" where
  "demo_comparison_request ids =
     \<lparr>cq_product_ids = ids, cq_criteria = None, cq_include_ai_recommendation = None\<rparr>"

definition demo_comparison_service :: comparison_service where
  "demo_comparison_service ps c b = Inr \<lparr>criteria = JList [], analysis = JStr ''close''\<rparr>"

definition demo_like_state :: like_state where
  "demo_like_state =
     \<lparr>ls_products = demo_products,
      likes = [\<lparr>pl_id = 1, pl_user = 8, pl_product = 2\<rparr>],
      behavior_logs = []\<rparr>"

section \<open>Auxiliary facts about keys and lookups\<close>

lemmas demo_comparison_defs = demo_products_def demo_comparison_state_def
  demo_comparison_request_def demo_comparison_service_def

lemmas demo_rec_defs = demo_general_service_def demo_personalized_service_def
  demo_recommendation_def demo_request_def empty_rec_state_def

lemmas rec_view_defs = general_recommendations_def personalized_recommendations_def
  cache_get_def cache_set_def produce_def Let_def make_response_data_def session_create_def
  result_create_def fresh_id_def general_cache_key_def personalized_cache_key_def
  get_limit_def get_exclude_products_def

lemma fold_max_ge: "a \<le> fold max xs (a::int)"
proof (induction xs arbitrary: a)
  case Nil then show ?case by simp
next
  case (Cons x xs)
  have "a \<le> max x a" by simp
  also have "max x a \<le> fold max xs (max x a)" by (rule Cons.IH)
  finally show ?case by simp
qed

lemma fold_max_mem: "x \<in> set xs \<Longrightarrow> x \<le> fold max xs (a::int)"
proof (induction xs arbitrary: a)
  case Nil then show ?case by simp
next
  case (Cons y ys)
  show ?case
  proof (cases "x = y")
    case True
    have "max y a \<le> fold max ys (max y a)" by (rule fold_max_ge)
    with True show ?thesis by simp
  next
    case False
    with Cons show ?thesis by simp
  qed
qed

lemma fresh_id_gt: "x \<in> set ids \<Longrightarrow> x < fresh_id ids"
  using fold_max_mem [of x ids 0] by (simp add: fresh_id_def)




lemma report_save_fresh:
  "gr_id r = fresh_id (map gr_id rows) \<Longrightarrow> gr_id r' = gr_id r
     \<Longrightarrow> report_save r' (rows @ [r]) = rows @ [r']"
proof -
  assume a: "gr_id r = fresh_id (map gr_id rows)" and b: "gr_id r' = gr_id r"
  have "\<forall>x \<in> set rows. gr_id x \<noteq> gr_id r'"
  proof
    fix x assume "x \<in> set rows"
    then have "gr_id x < fresh_id (map gr_id rows)" by (simp add: fresh_id_gt)
    with a b show "gr_id x \<noteq> gr_id r'" by simp
  qed
  then have "map (\<lambda>x. if gr_id x = gr_id r' then r' else x) rows = rows"
    by (induction rows) auto
  with b show ?thesis by (simp add: report_save_def)
qed



lemma results_get_none:
  "\<forall>r \<in> set rows. \<not> (rr_session r = sid \<and> rr_product_id r = pid)
     \<Longrightarrow> results_get rows sid pid = DoesNotExist"
  by (simp add: results_get_def filter_False)

section \<open>Feedback tracking\<close>

text \<open>
  Claim C5. A feedback-tracking call whose (session id, product id) pair matches no
  row of \<open>RecommendationResult\<close> is answered with 404 and leaves the state as it was:
  no stored row is changed.
\<close>

theorem track_not_found:
  assumes "\<forall>r \<in> set (results s). \<not> (rr_session r = fb_session_id vd
              \<and> rr_product_id r = fb_product_id vd)"
  shows "track_recommendation_interaction (Valid vd) now s
           = ((ErrorBody ''Recommendation not found'', 404), s)"
  using results_get_none [OF assms]
  by (simp add: track_recommendation_interaction_def)

theorem track_not_found_witness:
  "track_recommendation_interaction
     (Valid \<lparr>fb_session_id = 1, fb_product_id = 3, fb_action = ''click'', fb_timestamp = None\<rparr>)
     100
     \<lparr>sessions = [], results =
        [\<lparr>rr_id = 1, rr_session = 1, rr_product_id = 2, rr_score = 1, rr_position = 1,
          rr_algorithm_used = ''trending'', was_clicked = False, click_timestamp = None,
          was_added_to_cart = False, was_purchased = False\<rparr>], cache_entries = []\<rparr>
   = ((ErrorBody ''Recommendation not found'', 404),
      \<lparr>sessions = [], results =
        [\<lparr>rr_id = 1, rr_session = 1, rr_product_id = 2, rr_score = 1, rr_position = 1,
          rr_algorithm_used = ''trending'', was_clicked = False, click_timestamp = None,
          was_added_to_cart = False, was_purchased = False\<rparr>], cache_entries = []\<rparr>)"
  using track_not_found
    [of "\<lparr>sessions = [], results =
        [\<lparr>rr_id = 1, rr_session = 1, rr_product_id = 2, rr_score = 1, rr_position = 1,
          rr_algorithm_used = ''trending'', was_clicked = False, click_timestamp = None,
          was_added_to_cart = False, was_purchased = False\<rparr>], cache_entries = []\<rparr>"
        "\<lparr>fb_session_id = 1, fb_product_id = 3, fb_action = ''click'', fb_timestamp = None\<rparr>"
        100]
  by simp








section \<open>The recommendation cache\<close>

lemma map_of_cache_set: "map_of (cache_set c key v timeout now) key = Some (v, now + timeout)"
  by (simp add: cache_set_def)

lemma cache_get_Some:
  "cache_get c key now = Some v \<longleftrightarrow> (\<exists>e. map_of c key = Some (v, e) \<and> now < e)"
  by (auto simp: cache_get_def split: option.splits)

lemma produce_response:
  "produce user vd rtype description key timeout now recs s = ((RecommendationBody d, st), s1)
     \<Longrightarrow> map_of (cache_entries s1) key = Some (d, now + timeout)"
  by (auto simp: produce_def Let_def map_of_cache_set)

lemma general_first_call:
  assumes "general_recommendations service user (Valid vd) t1 s = ((RecommendationBody d, 200), s1)"
  shows "\<exists>e. map_of (cache_entries s1) (general_cache_key vd) = Some (d, e)
            \<and> (cache_get (cache_entries s) (general_cache_key vd) t1 = None \<longrightarrow> e = t1 + 900)"
proof (cases "cache_get (cache_entries s) (general_cache_key vd) t1")
  case (Some c)
  with assms have eq: "c = d" "s1 = s" by (simp_all add: general_recommendations_def)
  from Some obtain e where "map_of (cache_entries s) (general_cache_key vd) = Some (c, e)"
    by (auto simp: cache_get_Some)
  with eq Some show ?thesis by simp
next
  case None
  show ?thesis
  proof (cases "service (get_limit vd) (category_id vd) (get_exclude_products vd)")
    case (Inl e)
    with None assms show ?thesis by (simp add: general_recommendations_def)
  next
    case (Inr recs)
    with None assms have "produce user vd ''general'' ''Trending and popular products''
        (general_cache_key vd) 900 t1 recs s = ((RecommendationBody d, 200), s1)"
      by (simp add: general_recommendations_def)
    from produce_response [OF this] show ?thesis by simp
  qed
qed

lemma personalized_first_call:
  assumes "personalized_recommendations service uid (Valid vd) t1 s
             = ((RecommendationBody d, 200), s1)"
  shows "\<exists>e. map_of (cache_entries s1) (personalized_cache_key uid vd) = Some (d, e)
            \<and> (cache_get (cache_entries s) (personalized_cache_key uid vd) t1 = None
                 \<longrightarrow> e = t1 + 300)"
proof (cases "cache_get (cache_entries s) (personalized_cache_key uid vd) t1")
  case (Some c)
  with assms have eq: "c = d" "s1 = s" by (simp_all add: personalized_recommendations_def)
  from Some obtain e where "map_of (cache_entries s) (personalized_cache_key uid vd) = Some (c, e)"
    by (auto simp: cache_get_Some)
  with eq Some show ?thesis by simp
next
  case None
  show ?thesis
  proof (cases "service uid (get_limit vd) (category_id vd) (get_exclude_products vd)")
    case (Inl e)
    with None assms show ?thesis by (simp add: personalized_recommendations_def)
  next
    case (Inr recs)
    with None assms have "produce (Some uid) vd ''personalized''
        ''Based on your preferences and behavior''
        (personalized_cache_key uid vd) 300 t1 recs s = ((RecommendationBody d, 200), s1)"
      by (simp add: personalized_recommendations_def)
    from produce_response [OF this] show ?thesis by simp
  qed
qed

lemma live_entry_value:
  assumes "map_of c1 key = Some (d, e)" and "map_of c2 key = map_of c1 key"
    and "cache_get c2 key t2 \<noteq> None"
  shows "cache_get c2 key t2 = Some d"
  using assms by (auto simp: cache_get_def split: if_splits)

lemma live_window:
  assumes "map_of c key = Some (d, e)"
  shows "cache_get c key t2 \<noteq> None \<longleftrightarrow> t2 < e"
  using assms by (simp add: cache_get_def)

text \<open>
  Claim C1. Take a recommendation request (general or personalized) that was answered
  with a body \<open>d\<close>, and a second request that derives the same cache key and arrives
  while the entry the first call left under that key is still live. The second call
  then returns exactly \<open>d\<close>, including its session id, and returns the state
  unchanged: it creates no session row and no result row, whatever the service would
  have answered. After a first call that missed the cache the entry is live exactly
  until 900 seconds (general) or 300 seconds (personalized) after that call.
\<close>

theorem cache_hit_replays:
  "(general_recommendations service1 user1 (Valid vd1) t1 s = ((RecommendationBody d, 200), s1)
      \<and> general_cache_key vd2 = general_cache_key vd1
      \<and> map_of (cache_entries s2) (general_cache_key vd1)
          = map_of (cache_entries s1) (general_cache_key vd1)
      \<and> cache_get (cache_entries s2) (general_cache_key vd1) t2 \<noteq> None
    \<longrightarrow> general_recommendations service2 user2 (Valid vd2) t2 s2
          = ((RecommendationBody d, 200), s2))
   \<and> (general_recommendations service1 user1 (Valid vd1) t1 s = ((RecommendationBody d, 200), s1)
      \<and> cache_get (cache_entries s) (general_cache_key vd1) t1 = None
    \<longrightarrow> (cache_get (cache_entries s1) (general_cache_key vd1) t2 \<noteq> None \<longleftrightarrow> t2 < t1 + 900))
   \<and> (personalized_recommendations pservice1 uid1 (Valid vd1) t1 s = ((RecommendationBody d, 200), s1)
      \<and> personalized_cache_key uid2 vd2 = personalized_cache_key uid1 vd1
      \<and> map_of (cache_entries s2) (personalized_cache_key uid1 vd1)
          = map_of (cache_entries s1) (personalized_cache_key uid1 vd1)
      \<and> cache_get (cache_entries s2) (personalized_cache_key uid1 vd1) t2 \<noteq> None
    \<longrightarrow> personalized_recommendations pservice2 uid2 (Valid vd2) t2 s2
          = ((RecommendationBody d, 200), s2))
   \<and> (personalized_recommendations pservice1 uid1 (Valid vd1) t1 s = ((RecommendationBody d, 200), s1)
      \<and> cache_get (cache_entries s) (personalized_cache_key uid1 vd1) t1 = None
    \<longrightarrow> (cache_get (cache_entries s1) (personalized_cache_key uid1 vd1) t2 \<noteq> None
          \<longleftrightarrow> t2 < t1 + 300))"
proof (intro conjI impI)
  assume a: "general_recommendations service1 user1 (Valid vd1) t1 s = ((RecommendationBody d, 200), s1)
      \<and> general_cache_key vd2 = general_cache_key vd1
      \<and> map_of (cache_entries s2) (general_cache_key vd1)
          = map_of (cache_entries s1) (general_cache_key vd1)
      \<and> cache_get (cache_entries s2) (general_cache_key vd1) t2 \<noteq> None"
  then obtain e where e: "map_of (cache_entries s1) (general_cache_key vd1) = Some (d, e)"
    using general_first_call by blast
  have "cache_get (cache_entries s2) (general_cache_key vd1) t2 = Some d"
    using live_entry_value [OF e] a by blast
  with a show "general_recommendations service2 user2 (Valid vd2) t2 s2
          = ((RecommendationBody d, 200), s2)"
    by (simp add: general_recommendations_def)
next
  assume a: "general_recommendations service1 user1 (Valid vd1) t1 s = ((RecommendationBody d, 200), s1)
      \<and> cache_get (cache_entries s) (general_cache_key vd1) t1 = None"
  then have "map_of (cache_entries s1) (general_cache_key vd1) = Some (d, t1 + 900)"
    using general_first_call by blast
  then show "cache_get (cache_entries s1) (general_cache_key vd1) t2 \<noteq> None \<longleftrightarrow> t2 < t1 + 900"
    by (rule live_window)
next
  assume a: "personalized_recommendations pservice1 uid1 (Valid vd1) t1 s = ((RecommendationBody d, 200), s1)
      \<and> personalized_cache_key uid2 vd2 = personalized_cache_key uid1 vd1
      \<and> map_of (cache_entries s2) (personalized_cache_key uid1 vd1)
          = map_of (cache_entries s1) (personalized_cache_key uid1 vd1)
      \<and> cache_get (cache_entries s2) (personalized_cache_key uid1 vd1) t2 \<noteq> None"
  then obtain e where e: "map_of (cache_entries s1) (personalized_cache_key uid1 vd1) = Some (d, e)"
    using personalized_first_call by blast
  have "cache_get (cache_entries s2) (personalized_cache_key uid1 vd1) t2 = Some d"
    using live_entry_value [OF e] a by blast
  with a show "personalized_recommendations pservice2 uid2 (Valid vd2) t2 s2
          = ((RecommendationBody d, 200), s2)"
    by (simp add: personalized_recommendations_def)
next
  assume a: "personalized_recommendations pservice1 uid1 (Valid vd1) t1 s = ((RecommendationBody d, 200), s1)
      \<and> cache_get (cache_entries s) (personalized_cache_key uid1 vd1) t1 = None"
  then have "map_of (cache_entries s1) (personalized_cache_key uid1 vd1) = Some (d, t1 + 300)"
    using personalized_first_call by blast
  then show "cache_get (cache_entries s1) (personalized_cache_key uid1 vd1) t2 \<noteq> None
          \<longleftrightarrow> t2 < t1 + 300"
    by (rule live_window)
qed

theorem cache_hit_replays_witness:
  "general_recommendations (\<lambda>l c e. Inl ''unavailable'') (Some 3) (Valid (demo_request (Some 4))) 899
     (snd (general_recommendations demo_general_service None (Valid (demo_request None)) 0
             empty_rec_state))
   = ((RecommendationBody
         (make_response_data 1 [demo_recommendation] ''general'' ''Trending and popular products''),
       200),
      snd (general_recommendations demo_general_service None (Valid (demo_request None)) 0
             empty_rec_state))
   \<and> personalized_recommendations (\<lambda>u l c e. Inl ''unavailable'') 3 (Valid (demo_request (Some 4))) 299
     (snd (personalized_recommendations demo_personalized_service 3 (Valid (demo_request None)) 0
             empty_rec_state))
   = ((RecommendationBody
         (make_response_data 1 [demo_recommendation] ''personalized''
            ''Based on your preferences and behavior''),
       200),
      snd (personalized_recommendations demo_personalized_service 3 (Valid (demo_request None)) 0
             empty_rec_state))"
  using cache_hit_replays [where ?service1.0 = demo_general_service and ?user1.0 = None
      and ?vd1.0 = "demo_request None" and ?t1.0 = 0 and s = empty_rec_state
      and d = "make_response_data 1 [demo_recommendation] ''general''
                 ''Trending and popular products''"
      and ?s1.0 = "snd (general_recommendations demo_general_service None
                          (Valid (demo_request None)) 0 empty_rec_state)"
      and ?vd2.0 = "demo_request (Some 4)"
      and ?s2.0 = "snd (general_recommendations demo_general_service None
                          (Valid (demo_request None)) 0 empty_rec_state)"
      and ?t2.0 = 899 and ?service2.0 = "\<lambda>l c e. Inl ''unavailable''" and ?user2.0 = "Some 3"]
    cache_hit_replays [where ?pservice1.0 = demo_personalized_service and ?uid1.0 = 3
      and ?vd1.0 = "demo_request None" and ?t1.0 = 0 and s = empty_rec_state
      and d = "make_response_data 1 [demo_recommendation] ''personalized''
                 ''Based on your preferences and behavior''"
      and ?s1.0 = "snd (personalized_recommendations demo_personalized_service 3
                          (Valid (demo_request None)) 0 empty_rec_state)"
      and ?vd2.0 = "demo_request (Some 4)"
      and ?s2.0 = "snd (personalized_recommendations demo_personalized_service 3
                          (Valid (demo_request None)) 0 empty_rec_state)"
      and ?t2.0 = 299 and ?pservice2.0 = "\<lambda>u l c e. Inl ''unavailable''" and ?uid2.0 = 3]
  by (simp add: demo_rec_defs rec_view_defs)

section \<open>Result rows of a session\<close>













section \<open>Report generation\<close>

text \<open>
  Claim C2. A report-generation request that passes validation creates a
  \<open>GeneratedReport\<close> row with status \<open>pending\<close> (and no payload). If the report service
  raises, that row ends with status \<open>failed\<close> and \<open>raw_data\<close> unset; if the service
  returns, the row ends with status \<open>completed\<close>, \<open>completed_at\<close> set, and \<open>raw_data\<close>
  and \<open>ai_summary_text\<close> taken from the service's result. In both cases it is the one
  row added to the table.
\<close>

theorem generate_report_lifecycle:
  "(let report = report_objects_create vd user now (reports s);
        s' = snd (GenerateReportView_create service user (Valid vd) now s)
    in gr_status report = ''pending'' \<and> gr_raw_data report = None \<and>
       (case service (rq_report_type vd) user (rq_store_id vd) (rq_date_from vd)
               (rq_date_to vd) (gr_parameters report) of
          Inl e \<Rightarrow>
            (\<exists>row. reports s' = reports s @ [row] \<and> gr_id row = gr_id report
               \<and> gr_status row = ''failed'' \<and> gr_raw_data row = None
               \<and> gr_completed_at row = None)
        | Inr rd \<Rightarrow>
            (\<exists>row. reports s' = reports s @ [row] \<and> gr_id row = gr_id report
               \<and> gr_status row = ''completed'' \<and> gr_completed_at row = Some now
               \<and> gr_raw_data row = Some (raw_data rd)
               \<and> gr_ai_summary_text row = Some (ai_summary rd))))"
proof -
  define report where "report = report_objects_create vd user now (reports s)"
  have id: "gr_id report = fresh_id (map gr_id (reports s))"
    by (simp add: report_def report_objects_create_def)
  have fields: "gr_report_type report = rq_report_type vd" "gr_store_id report = rq_store_id vd"
    "gr_date_from report = rq_date_from vd" "gr_date_to report = rq_date_to vd"
    "gr_status report = ''pending''" "gr_raw_data report = None" "gr_completed_at report = None"
    by (simp_all add: report_def report_objects_create_def)
  show ?thesis
    unfolding Let_def report_def [symmetric]
    by (cases "service (rq_report_type vd) user (rq_store_id vd) (rq_date_from vd)
               (rq_date_to vd) (gr_parameters report)")
       (simp_all add: GenerateReportView_create_def Let_def report_def [symmetric] fields
          report_save_fresh [OF id])
qed

text \<open>
  Claim C9. A request whose body fails validation is answered with 400 and the field
  errors. The report-generation view does not: its serializer raises inside the
  \<open>try\<close> block and the handler answers with the generic 500 body, where
  \<open>general_recommendations\<close> answers the same failure with 400.
\<close>

theorem invalid_report_request_500:
  "GenerateReportView_create service user (Invalid errs) now s
     = ((ReportError ''Failed to generate report'', 500), s)
   \<and> general_recommendations gservice guser (Invalid errs) now gs
     = ((FieldErrors errs, 400), gs)"
  by (simp add: GenerateReportView_create_def general_recommendations_def)

section \<open>Report download\<close>










section \<open>Report schedules\<close>

text \<open>
  Claim C6. Creating a schedule adds one row whose \<open>next_run\<close> lies after the creation
  time by exactly 1 day for \<open>daily\<close>, 7 days for \<open>weekly\<close>, 30 days for \<open>monthly\<close>,
  90 days for \<open>quarterly\<close>, and 1 day for every other frequency (a day is 86400
  seconds).
\<close>

theorem schedule_next_run:
  "\<exists>row. schedules (perform_create user frequency now s) = schedules s @ [row]
     \<and> sch_frequency row = frequency
     \<and> sch_next_run row - now =
         (if frequency = ''daily'' then 1 * 86400
          else if frequency = ''weekly'' then 7 * 86400
          else if frequency = ''monthly'' then 30 * 86400
          else if frequency = ''quarterly'' then 90 * 86400
          else 1 * 86400)"
  by (simp add: perform_create_def next_run_of_def timedelta_def)

section \<open>Product comparison\<close>

lemma active_ids_card:
  assumes pk: "distinct (map p_id tbl)"
  shows "length (filter (\<lambda>p. p_id p \<in> A \<and> p_is_active p) tbl)
           = card (p_id ` {p \<in> set tbl. p_id p \<in> A \<and> p_is_active p})"
proof -
  have "distinct (map p_id (filter (\<lambda>p. p_id p \<in> A \<and> p_is_active p) tbl))"
    using pk by (rule distinct_map_filter)
  then have "card (set (map p_id (filter (\<lambda>p. p_id p \<in> A \<and> p_is_active p) tbl)))
      = length (map p_id (filter (\<lambda>p. p_id p \<in> A \<and> p_is_active p) tbl))"
    by (rule distinct_card)
  then show ?thesis by simp
qed

lemma not_found_iff:
  assumes pk: "distinct (map p_id tbl)" and ids: "distinct ids"
  shows "length (filter (\<lambda>p. p_id p \<in> set ids \<and> p_is_active p) tbl) \<noteq> length ids
         \<longleftrightarrow> (\<exists>i \<in> set ids. \<not> (\<exists>p \<in> set tbl. p_id p = i \<and> p_is_active p))"
proof -
  let ?F = "p_id ` {p \<in> set tbl. p_id p \<in> set ids \<and> p_is_active p}"
  have len: "length (filter (\<lambda>p. p_id p \<in> set ids \<and> p_is_active p) tbl) = card ?F"
    by (rule active_ids_card [OF pk])
  have sub: "?F \<subseteq> set ids" by auto
  have cardids: "card (set ids) = length ids" using ids by (rule distinct_card)
  show ?thesis
  proof
    assume ne: "length (filter (\<lambda>p. p_id p \<in> set ids \<and> p_is_active p) tbl) \<noteq> length ids"
    show "\<exists>i \<in> set ids. \<not> (\<exists>p \<in> set tbl. p_id p = i \<and> p_is_active p)"
    proof (rule ccontr)
      assume "\<not> (\<exists>i \<in> set ids. \<not> (\<exists>p \<in> set tbl. p_id p = i \<and> p_is_active p))"
      then have "set ids \<subseteq> ?F" by force
      with sub have "?F = set ids" by blast
      with len cardids ne show False by simp
    qed
  next
    assume "\<exists>i \<in> set ids. \<not> (\<exists>p \<in> set tbl. p_id p = i \<and> p_is_active p)"
    then obtain i where i: "i \<in> set ids" "i \<notin> ?F" by force
    with sub have "?F \<subset> set ids" by blast
    then have "card ?F < card (set ids)" by (simp add: psubset_card_mono)
    with len cardids
    show "length (filter (\<lambda>p. p_id p \<in> set ids \<and> p_is_active p) tbl) \<noteq> length ids"
      by simp
  qed
qed

lemma all_found_set:
  assumes pk: "distinct (map p_id tbl)"
    and eq: "length (filter (\<lambda>p. p_id p \<in> set ids \<and> p_is_active p) tbl) = length ids"
  shows "set (map p_id (filter (\<lambda>p. p_id p \<in> set ids \<and> p_is_active p) tbl)) = set ids"
    and "distinct (map p_id (filter (\<lambda>p. p_id p \<in> set ids \<and> p_is_active p) tbl))"
proof -
  let ?F = "p_id ` {p \<in> set tbl. p_id p \<in> set ids \<and> p_is_active p}"
  have len: "length (filter (\<lambda>p. p_id p \<in> set ids \<and> p_is_active p) tbl) = card ?F"
    by (rule active_ids_card [OF pk])
  have sub: "?F \<subseteq> set ids" by auto
  have "card (set ids) \<le> length ids" by (rule card_length)
  with len eq have "card (set ids) \<le> card ?F" by simp
  with sub have "?F = set ids" by (simp add: card_seteq)
  then show "set (map p_id (filter (\<lambda>p. p_id p \<in> set ids \<and> p_is_active p) tbl)) = set ids"
    by simp
  show "distinct (map p_id (filter (\<lambda>p. p_id p \<in> set ids \<and> p_is_active p) tbl))"
    using pk by (rule distinct_map_filter)
qed

lemma compare_products_not_found:
  "length (filter (\<lambda>p. p_id p \<in> set (cq_product_ids vd) \<and> p_is_active p) (cs_products s))
     \<noteq> length (cq_product_ids vd)
   \<Longrightarrow> compare_products service user (Valid vd) s
       = ((ComparisonError ''One or more products not found or inactive'', 404), s)"
  by (simp add: compare_products_def Let_def)

lemma compare_products_all_found:
  "length (filter (\<lambda>p. p_id p \<in> set (cq_product_ids vd) \<and> p_is_active p) (cs_products s))
     = length (cq_product_ids vd)
   \<Longrightarrow> compare_products service user (Valid vd) s
       = (case service (filter (\<lambda>p. p_id p \<in> set (cq_product_ids vd) \<and> p_is_active p)
                          (cs_products s))
                 (case cq_criteria vd of None \<Rightarrow> [] | Some c \<Rightarrow> c)
                 (case cq_include_ai_recommendation vd of None \<Rightarrow> True | Some b \<Rightarrow> b) of
            Inl e \<Rightarrow> ((ComparisonError ''Failed to compare products'', 500), s)
          | Inr res \<Rightarrow>
              ((ComparisonBody
                  \<lparr>pc_id = fresh_id (map pc_id (comparisons s)), pc_user = user,
                   pc_comparison_criteria = criteria res, pc_ai_analysis = analysis res,
                   pc_products = map p_id (filter (\<lambda>p. p_id p \<in> set (cq_product_ids vd)
                                                      \<and> p_is_active p) (cs_products s))\<rparr>,
                201),
               s\<lparr>comparisons := comparisons s @
                  [\<lparr>pc_id = fresh_id (map pc_id (comparisons s)), pc_user = user,
                    pc_comparison_criteria = criteria res, pc_ai_analysis = analysis res,
                    pc_products = map p_id (filter (\<lambda>p. p_id p \<in> set (cq_product_ids vd)
                                                       \<and> p_is_active p) (cs_products s))\<rparr>]\<rparr>))"
  by (simp add: compare_products_def Let_def split: sum.split)

text \<open>
  Claim C3, as stated, fails twice. When every submitted product is active but the
  comparison service raises, the answer is 500 and no \<open>ProductComparison\<close> row is
  created. And the view compares the number of active products found with the length
  of the submitted list, so a list that repeats the id of an active product is
  answered with 404.
\<close>

theorem compare_products_counterexample:
  "snd (fst (compare_products (\<lambda>ps c b. Inl ''unavailable'') None
               (Valid (demo_comparison_request [1, 2])) demo_comparison_state)) = 500
   \<and> comparisons (snd (compare_products (\<lambda>ps c b. Inl ''unavailable'') None
               (Valid (demo_comparison_request [1, 2])) demo_comparison_state)) = []
   \<and> snd (fst (compare_products demo_comparison_service None
               (Valid (demo_comparison_request [1, 1])) demo_comparison_state)) = 404
   \<and> (\<exists>p \<in> set (cs_products demo_comparison_state). p_id p = 1 \<and> p_is_active p)"
  by (simp add: compare_products_def Let_def demo_comparison_defs)

text \<open>
  Claim C3, amended. For a validated list of product ids without repetitions the
  answer is 404 if and only if some submitted id names no active product; a 404
  changes nothing. When the answer is not 404, either the comparison service raises,
  and the answer is 500 with nothing stored, or it returns, and the answer is 201 and
  exactly one \<open>ProductComparison\<close> row is added, holding the service's criteria and
  analysis and linked to exactly the submitted products.
\<close>

theorem compare_products_outcome:
  "(let products = filter (\<lambda>p. p_id p \<in> set (cq_product_ids vd) \<and> p_is_active p) (cs_products s);
        outcome = service products (case cq_criteria vd of None \<Rightarrow> [] | Some c \<Rightarrow> c)
                    (case cq_include_ai_recommendation vd of None \<Rightarrow> True | Some b \<Rightarrow> b);
        body = fst (fst (compare_products service user (Valid vd) s));
        status = snd (fst (compare_products service user (Valid vd) s));
        s' = snd (compare_products service user (Valid vd) s)
    in (distinct (map p_id (cs_products s)) \<and> distinct (cq_product_ids vd)
          \<longrightarrow> (status = 404
                \<longleftrightarrow> (\<exists>i \<in> set (cq_product_ids vd).
                       \<not> (\<exists>p \<in> set (cs_products s). p_id p = i \<and> p_is_active p))))
     \<and> (status = 404 \<longrightarrow> s' = s)
     \<and> (status \<noteq> 404 \<longrightarrow>
          (case outcome of
             Inl e \<Rightarrow> status = 500 \<and> s' = s
           | Inr res \<Rightarrow>
               status = 201
               \<and> (\<exists>c. body = ComparisonBody c
                     \<and> comparisons s' = comparisons s @ [c]
                     \<and> cs_products s' = cs_products s
                     \<and> pc_comparison_criteria c = criteria res
                     \<and> pc_ai_analysis c = analysis res
                     \<and> (distinct (map p_id (cs_products s))
                          \<longrightarrow> set (pc_products c) = set (cq_product_ids vd)
                              \<and> distinct (pc_products c))))))"
proof (cases "length (filter (\<lambda>p. p_id p \<in> set (cq_product_ids vd) \<and> p_is_active p)
                        (cs_products s)) = length (cq_product_ids vd)")
  case False
  note run = compare_products_not_found [OF False, of service user]
  show ?thesis
    unfolding Let_def run fst_conv snd_conv
    using False not_found_iff [of "cs_products s" "cq_product_ids vd"] by simp
next
  case True
  note run = compare_products_all_found [OF True, of service user]
  show ?thesis
  proof (cases "service (filter (\<lambda>p. p_id p \<in> set (cq_product_ids vd) \<and> p_is_active p)
                          (cs_products s))
                 (case cq_criteria vd of None \<Rightarrow> [] | Some c \<Rightarrow> c)
                 (case cq_include_ai_recommendation vd of None \<Rightarrow> True | Some b \<Rightarrow> b)")
    case (Inl e)
    show ?thesis
      unfolding Let_def run Inl sum.case fst_conv snd_conv
      using True not_found_iff [of "cs_products s" "cq_product_ids vd"] by simp
  next
    case (Inr res)
    show ?thesis
      unfolding Let_def run Inr sum.case fst_conv snd_conv
      using True not_found_iff [of "cs_products s" "cq_product_ids vd"]
        all_found_set [of "cs_products s" "cq_product_ids vd"]
      by simp
  qed
qed

theorem compare_products_outcome_witness:
  "snd (fst (compare_products demo_comparison_service None
               (Valid (demo_comparison_request [1, 3])) demo_comparison_state)) = 404
   \<and> snd (fst (compare_products demo_comparison_service None
               (Valid (demo_comparison_request [2, 1])) demo_comparison_state)) = 201
   \<and> map pc_products (comparisons (snd (compare_products demo_comparison_service None
               (Valid (demo_comparison_request [2, 1])) demo_comparison_state))) = [[1, 2]]"
  using compare_products_outcome [where service = demo_comparison_service and user = None
      and vd = "demo_comparison_request [1, 3]" and s = demo_comparison_state]
    compare_products_outcome [where service = demo_comparison_service and user = None
      and vd = "demo_comparison_request [2, 1]" and s = demo_comparison_state]
  by (simp add: compare_products_def Let_def demo_comparison_defs fresh_id_def)

section \<open>Product likes\<close>

lemma toggle_creates:
  assumes "objects_get (filter (\<lambda>p. p_slug p = slug \<and> p_is_active p) (ls_products s)) = Found p"
    and "filter (\<lambda>l. pl_user l = user \<and> pl_product l = p_id p) (likes s) = []"
  shows "toggle_product_like user slug s =
           ((LikeBody True ''Product liked'', 200),
            s\<lparr>likes := likes s @ [\<lparr>pl_id = fresh_id (map pl_id (likes s)),
                                    pl_user = user, pl_product = p_id p\<rparr>],
              behavior_logs := log_behavior user (p_id p) True (behavior_logs s)\<rparr>)"
  using assms by (simp add: toggle_product_like_def like_response_def)

lemma toggle_deletes:
  assumes "objects_get (filter (\<lambda>p. p_slug p = slug \<and> p_is_active p) (ls_products s)) = Found p"
    and "filter (\<lambda>l. pl_user l = user \<and> pl_product l = p_id p) (likes s) = [l]"
  shows "toggle_product_like user slug s =
           ((LikeBody False ''Product unliked'', 200),
            s\<lparr>likes := filter (\<lambda>x. pl_id x \<noteq> pl_id l) (likes s),
              behavior_logs := log_behavior user (p_id p) False (behavior_logs s)\<rparr>)"
  using assms by (simp add: toggle_product_like_def like_response_def)

lemma delete_by_key:
  assumes pk: "distinct (map k xs)" and one: "filter Q xs = [l]"
  shows "filter (\<lambda>x. k x \<noteq> k l) xs = filter (\<lambda>x. \<not> Q x) xs"
proof (rule filter_cong [OF refl])
  fix x assume x: "x \<in> set xs"
  have "l \<in> set (filter Q xs)" using one by simp
  then have l: "l \<in> set xs" "Q l" by simp_all
  have inj: "k x = k l \<longleftrightarrow> x = l"
    using pk x l(1) by (meson distinct_map inj_onD)
  have "Q x \<longleftrightarrow> x = l"
  proof
    assume "Q x"
    with x have "x \<in> set (filter Q xs)" by simp
    with one show "x = l" by simp
  next
    assume "x = l" with l(2) show "Q x" by simp
  qed
  with inj show "(k x \<noteq> k l) = (\<not> Q x)" by simp
qed

lemma append_fresh_then_delete:
  "k l = fresh_id (map k xs) \<Longrightarrow> filter (\<lambda>x. k x \<noteq> k l) (xs @ [l]) = xs"
proof -
  assume a: "k l = fresh_id (map k xs)"
  have "\<forall>x \<in> set xs. k x \<noteq> k l"
  proof
    fix x assume "x \<in> set xs"
    then have "k x < fresh_id (map k xs)" by (simp add: fresh_id_gt)
    with a show "k x \<noteq> k l" by simp
  qed
  then have "filter (\<lambda>x. k x \<noteq> k l) xs = xs" by (simp add: filter_id_conv)
  then show ?thesis by simp
qed

lemma toggle_twice_from_unliked:
  assumes prod: "objects_get (filter (\<lambda>p. p_slug p = slug \<and> p_is_active p) (ls_products s))
                   = Found p"
    and none: "filter (\<lambda>l. pl_user l = user \<and> pl_product l = p_id p) (likes s) = []"
  shows "fst (toggle_product_like user slug s) = (LikeBody True ''Product liked'', 200)"
    and "like_relation (snd (toggle_product_like user slug s))
           = insert (user, p_id p) (like_relation s)"
    and "fst (toggle_product_like user slug (snd (toggle_product_like user slug s)))
           = (LikeBody False ''Product unliked'', 200)"
    and "likes (snd (toggle_product_like user slug (snd (toggle_product_like user slug s))))
           = likes s"
proof -
  let ?l = "\<lparr>pl_id = fresh_id (map pl_id (likes s)), pl_user = user, pl_product = p_id p\<rparr>"
  let ?s1 = "s\<lparr>likes := likes s @ [?l],
               behavior_logs := log_behavior user (p_id p) True (behavior_logs s)\<rparr>"
  have first: "toggle_product_like user slug s = ((LikeBody True ''Product liked'', 200), ?s1)"
    by (rule toggle_creates [OF prod none])
  show "fst (toggle_product_like user slug s) = (LikeBody True ''Product liked'', 200)"
    by (simp add: first)
  show "like_relation (snd (toggle_product_like user slug s))
           = insert (user, p_id p) (like_relation s)"
    by (simp add: first like_relation_def)
  have prod1: "objects_get (filter (\<lambda>p. p_slug p = slug \<and> p_is_active p) (ls_products ?s1))
                 = Found p"
    using prod by simp
  have one1: "filter (\<lambda>l. pl_user l = user \<and> pl_product l = p_id p) (likes ?s1) = [?l]"
    using none by simp
  note second = toggle_deletes [OF prod1 one1]
  show "fst (toggle_product_like user slug (snd (toggle_product_like user slug s)))
           = (LikeBody False ''Product unliked'', 200)"
    unfolding first snd_conv second by simp
  have "filter (\<lambda>x. pl_id x \<noteq> pl_id ?l) (likes s @ [?l]) = likes s"
    by (rule append_fresh_then_delete) simp
  then show "likes (snd (toggle_product_like user slug (snd (toggle_product_like user slug s))))
           = likes s"
    unfolding first snd_conv second by simp
qed

lemma toggle_twice_from_liked:
  assumes prod: "objects_get (filter (\<lambda>p. p_slug p = slug \<and> p_is_active p) (ls_products s))
                   = Found p"
    and pk: "distinct (map pl_id (likes s))"
    and one: "filter (\<lambda>l. pl_user l = user \<and> pl_product l = p_id p) (likes s) = [l]"
  shows "fst (toggle_product_like user slug s) = (LikeBody False ''Product unliked'', 200)"
    and "like_relation (snd (toggle_product_like user slug s))
           = like_relation s - {(user, p_id p)}"
    and "fst (toggle_product_like user slug (snd (toggle_product_like user slug s)))
           = (LikeBody True ''Product liked'', 200)"
    and "like_relation (snd (toggle_product_like user slug (snd (toggle_product_like user slug s))))
           = like_relation s"
proof -
  let ?Q = "\<lambda>l. pl_user l = user \<and> pl_product l = p_id p"
  let ?s1 = "s\<lparr>likes := filter (\<lambda>x. pl_id x \<noteq> pl_id l) (likes s),
               behavior_logs := log_behavior user (p_id p) False (behavior_logs s)\<rparr>"
  have first: "toggle_product_like user slug s = ((LikeBody False ''Product unliked'', 200), ?s1)"
    by (rule toggle_deletes [OF prod one])
  have rest: "filter (\<lambda>x. pl_id x \<noteq> pl_id l) (likes s) = filter (\<lambda>x. \<not> ?Q x) (likes s)"
    by (rule delete_by_key [OF pk one])
  have "l \<in> set (filter ?Q (likes s))" using one by simp
  then have mem: "(user, p_id p) \<in> like_relation s"
    by (force simp: like_relation_def)
  have rel1: "like_relation ?s1 = like_relation s - {(user, p_id p)}"
    unfolding like_relation_def by (simp add: rest) auto
  show "fst (toggle_product_like user slug s) = (LikeBody False ''Product unliked'', 200)"
    by (simp add: first)
  show "like_relation (snd (toggle_product_like user slug s))
           = like_relation s - {(user, p_id p)}"
    unfolding first snd_conv by (rule rel1)
  have prod1: "objects_get (filter (\<lambda>p. p_slug p = slug \<and> p_is_active p) (ls_products ?s1))
                 = Found p"
    using prod by simp
  have none1: "filter ?Q (likes ?s1) = []"
    by (simp add: rest filter_empty_conv)
  note second = toggle_twice_from_unliked [OF prod1 none1]
  show "fst (toggle_product_like user slug (snd (toggle_product_like user slug s)))
           = (LikeBody True ''Product liked'', 200)"
    unfolding first snd_conv by (rule second(1))
  have "like_relation (snd (toggle_product_like user slug ?s1))
          = insert (user, p_id p) (like_relation ?s1)"
    by (rule second(2))
  also have "\<dots> = like_relation s" unfolding rel1 using mem by auto
  finally show "like_relation (snd (toggle_product_like user slug
                   (snd (toggle_product_like user slug s)))) = like_relation s"
    unfolding first snd_conv .
qed

text \<open>
  Claim C10. Let the slug name an active product and let the like table hold at most
  one row for the user and that product (its primary keys distinct). If the user has
  no like row for the product, the call answers \<open>liked = true\<close> and the pair joins
  the like relation; otherwise the call deletes the row and answers \<open>liked = false\<close>.
  A second call undoes the first: after two successive calls the like relation is what
  it was before the first.
\<close>

theorem toggle_like_involution:
  "objects_get (filter (\<lambda>p. p_slug p = slug \<and> p_is_active p) (ls_products s)) = Found p
     \<and> distinct (map pl_id (likes s))
     \<and> length (filter (\<lambda>l. pl_user l = user \<and> pl_product l = p_id p) (likes s)) \<le> 1
   \<longrightarrow> (let first = toggle_product_like user slug s;
            second = toggle_product_like user slug (snd first)
        in ((user, p_id p) \<notin> like_relation s
              \<longrightarrow> fst first = (LikeBody True ''Product liked'', 200)
                  \<and> like_relation (snd first) = insert (user, p_id p) (like_relation s)
                  \<and> fst second = (LikeBody False ''Product unliked'', 200))
         \<and> ((user, p_id p) \<in> like_relation s
              \<longrightarrow> fst first = (LikeBody False ''Product unliked'', 200)
                  \<and> like_relation (snd first) = like_relation s - {(user, p_id p)}
                  \<and> fst second = (LikeBody True ''Product liked'', 200))
         \<and> like_relation (snd second) = like_relation s)"
proof (intro impI)
  let ?Q = "\<lambda>l. pl_user l = user \<and> pl_product l = p_id p"
  assume a: "objects_get (filter (\<lambda>p. p_slug p = slug \<and> p_is_active p) (ls_products s)) = Found p
     \<and> distinct (map pl_id (likes s))
     \<and> length (filter ?Q (likes s)) \<le> 1"
  then have prod: "objects_get (filter (\<lambda>p. p_slug p = slug \<and> p_is_active p) (ls_products s))
      = Found p"
    and pk: "distinct (map pl_id (likes s))" and le: "length (filter ?Q (likes s)) \<le> 1"
    by simp_all
  have mem_iff: "(user, p_id p) \<in> like_relation s \<longleftrightarrow> filter ?Q (likes s) \<noteq> []"
    by (auto simp: like_relation_def filter_empty_conv)
  show "let first = toggle_product_like user slug s;
            second = toggle_product_like user slug (snd first)
        in ((user, p_id p) \<notin> like_relation s
              \<longrightarrow> fst first = (LikeBody True ''Product liked'', 200)
                  \<and> like_relation (snd first) = insert (user, p_id p) (like_relation s)
                  \<and> fst second = (LikeBody False ''Product unliked'', 200))
         \<and> ((user, p_id p) \<in> like_relation s
              \<longrightarrow> fst first = (LikeBody False ''Product unliked'', 200)
                  \<and> like_relation (snd first) = like_relation s - {(user, p_id p)}
                  \<and> fst second = (LikeBody True ''Product liked'', 200))
         \<and> like_relation (snd second) = like_relation s"
  proof (cases "filter ?Q (likes s)")
    case Nil
    note t = toggle_twice_from_unliked [OF prod Nil]
    have "like_relation (snd (toggle_product_like user slug
             (snd (toggle_product_like user slug s)))) = like_relation s"
      using t(4) by (simp add: like_relation_def)
    with t(1-3) mem_iff Nil show ?thesis by (simp add: Let_def)
  next
    case (Cons l rest)
    with le have one: "filter ?Q (likes s) = [l]" by simp
    note t = toggle_twice_from_liked [OF prod pk one]
    from t mem_iff one show ?thesis by (simp add: Let_def)
  qed
qed

theorem toggle_like_involution_witness:
  "fst (toggle_product_like 8 ''phone'' demo_like_state) = (LikeBody True ''Product liked'', 200)
   \<and> like_relation (snd (toggle_product_like 8 ''phone'' demo_like_state)) = {(8, 1), (8, 2)}
   \<and> fst (toggle_product_like 8 ''laptop'' demo_like_state)
       = (LikeBody False ''Product unliked'', 200)
   \<and> like_relation (snd (toggle_product_like 8 ''laptop'' demo_like_state)) = {}
   \<and> like_relation (snd (toggle_product_like 8 ''laptop''
        (snd (toggle_product_like 8 ''laptop'' demo_like_state)))) = {(8, 2)}"
  using toggle_like_involution [where slug = "''phone''" and s = demo_like_state and user = 8
      and p = "\<lparr>p_id = 1, p_slug = ''phone'', p_is_active = True\<rparr>"]
    toggle_like_involution [where slug = "''laptop''" and s = demo_like_state and user = 8
      and p = "\<lparr>p_id = 2, p_slug = ''laptop'', p_is_active = True\<rparr>"]
  by (simp add: demo_like_state_def demo_products_def like_relation_def Let_def
      toggle_product_like_def like_response_def log_behavior_def fresh_id_def)

end
